theory Spec2Isabelle
  imports Complex_Main "HOL-Library.AList" "HOL-Library.Multiset"
begin

section \<open>Data model of AuctionApp.py\<close>

text \<open>
  The application keeps one set of module-level globals that every request handler reads
  and writes.  A handler is modelled as a function from the state before the request to a
  reply and the state after it.  Python \<open>float\<close> values (purses, prices, bid amounts) are
  modelled as real numbers with exact arithmetic; the literals \<open>0.1\<close>, \<open>1e-6\<close> and
  \<open>100.0\<close> are the rationals \<open>1/10\<close>, \<open>1/1000000\<close> and \<open>100\<close>.  Rounding, infinities
  and NaN are outside the model.  Dictionaries are association lists in insertion order,
  written to with \<open>AList.update\<close> (an existing key keeps its place, a new key goes to the
  end) and read with \<open>map_of\<close>.
\<close>

text \<open>The dataclass \<open>Player\<close>.  Its field \<open>id\<close> is called \<open>pid\<close> here.\<close>

record Player =
  pid :: int
  set_no :: int
  set_code :: string
  first_name :: string
  surname :: string
  country :: string
  base_price :: real
  role :: string

text \<open>The dataclass \<open>Team\<close>; \<open>squad\<close> is always built as a list by \<open>init_teams\<close>.\<close>

record Team =
  name :: string
  purse_total :: real
  purse_remaining :: real
  taken_by :: "string option"
  squad :: "int list"

text \<open>The dataclass \<open>Bid\<close>.\<close>

record Bid =
  player_id :: int
  team_name :: string
  amount :: real

text \<open>
  An entry of \<open>SOLD_PLAYERS\<close>: the dictionary with the keys \<open>player_name\<close>,
  \<open>team_name\<close> and \<open>price_cr\<close>.
\<close>

record Sold =
  sold_player_name :: string
  sold_team_name :: "string option"
  sold_price_cr :: real

text \<open>The Flask session of one client: the keys \<open>team_name\<close> and \<open>is_admin\<close>.\<close>

record Session =
  session_team_name :: "string option"
  session_is_admin :: bool

text \<open>
  One data row of an uploaded file after the text conversions of the loaders: the set
  number is \<open>None\<close> where \<open>int\<close> raises \<open>ValueError\<close>, the strings are stripped, and
  the price is the value of \<open>float(digits) if digits else 0.0\<close> with \<open>0.0\<close> on
  \<open>ValueError\<close>.
\<close>

record Row =
  row_set_no :: "int option"
  row_set_code :: string
  row_first_name :: string
  row_surname :: string
  row_country :: string
  row_base_price :: real
  row_role :: string

text \<open>
  The globals of the module, the session of every client (clients are numbered) and the
  two files \<open>players.pdf\<close> and \<open>players.csv\<close> (\<open>None\<close>: the file does not exist).
\<close>

record State =
  PLAYERS :: "(int \<times> Player) list"
  TEAMS :: "(string \<times> Team) list"
  AUCTION_STARTED :: bool
  AUCTION_ORDER :: "int list"
  CURRENT_INDEX :: int
  CURRENT_BID :: "Bid option"
  SOLD_PLAYERS :: "(int \<times> Sold) list"
  SESSIONS :: "nat \<Rightarrow> Session"
  PLAYERS_PDF :: "Row list option"
  PLAYERS_CSV :: "Row list option"

text \<open>
  What a handler answers: \<open>Ok\<close>, or the reason it refused.  The constructors carry the
  names of the specification; the flashed message is given where the handler is defined.
\<close>

datatype error =
    NotAuthorized
  | AlreadyStarted
  | InvalidFranchise
  | AlreadyClaimed
  | NoClaimant
  | WrongPassword
  | NoFile
  | UnsupportedFile
  | EmptyCatalog
  | NotStarted
  | NoActivePlayer
  | InvalidAmount
  | NotPositive
  | BidTooLow real
  | InsufficientPurse
  | NoBid
  | KeyError

datatype reply = Ok | Failed error

definition ADMIN_PASSWORD :: string where
  "ADMIN_PASSWORD = ''ipladmin''"

definition DEFAULT_TEAMS :: "(string \<times> real) list" where
  "DEFAULT_TEAMS =
     [(''CSK'', 100), (''MI'', 100), (''RCB'', 100), (''KKR'', 100), (''SRH'', 100),
      (''RR'', 100), (''DC'', 100), (''PBKS'', 100), (''GT'', 100), (''LSG'', 100)]"

section \<open>Player loaders\<close>

definition reset_auction_state :: "State \<Rightarrow> State" where
  "reset_auction_state s =
     s\<lparr>AUCTION_STARTED := False, AUCTION_ORDER := [], CURRENT_INDEX := - 1,
       CURRENT_BID := None, SOLD_PLAYERS := []\<rparr>"

definition make_player :: "int \<Rightarrow> int \<Rightarrow> Row \<Rightarrow> Player" where
  "make_player i sn row =
     \<lparr>pid = i, set_no = sn, set_code = row_set_code row,
      first_name = row_first_name row, surname = row_surname row,
      country = row_country row, base_price = row_base_price row, role = row_role row\<rparr>"

text \<open>
  The row loop of \<open>load_players_from_csv\<close>: a row whose set number does not parse, or
  that has neither first name nor surname, is skipped; every other row is stored under the
  next identifier.
\<close>

fun csv_rows :: "Row list \<Rightarrow> int \<Rightarrow> (int \<times> Player) list \<Rightarrow> (int \<times> Player) list" where
  "csv_rows [] i ps = ps"
| "csv_rows (row # rows) i ps =
     (case row_set_no row of
        None \<Rightarrow> csv_rows rows i ps
      | Some sn \<Rightarrow>
          if row_first_name row = [] \<and> row_surname row = [] then csv_rows rows i ps
          else csv_rows rows (i + 1) (AList.update i (make_player i sn row) ps))"

text \<open>
  The row loop of \<open>load_players_from_pdf\<close>, over the data rows of all tables that have a
  header: a set number that does not parse counts as \<open>0\<close>.
\<close>

fun pdf_rows :: "Row list \<Rightarrow> int \<Rightarrow> (int \<times> Player) list \<Rightarrow> (int \<times> Player) list" where
  "pdf_rows [] i ps = ps"
| "pdf_rows (row # rows) i ps =
     (let sn = (case row_set_no row of None \<Rightarrow> 0 | Some n \<Rightarrow> n) in
      if row_first_name row = [] \<and> row_surname row = [] then pdf_rows rows i ps
      else pdf_rows rows (i + 1) (AList.update i (make_player i sn row) ps))"

text \<open>
  Both loaders empty \<open>PLAYERS\<close> first and return at once when the file does not exist;
  otherwise they fill \<open>PLAYERS\<close> and call \<open>reset_auction_state\<close>.  Every caller passes
  the path of the file the function is named after.
\<close>

definition load_players_from_csv :: "State \<Rightarrow> State" where
  "load_players_from_csv s =
     (let s1 = s\<lparr>PLAYERS := []\<rparr> in
      case PLAYERS_CSV s1 of
        None \<Rightarrow> s1
      | Some rows \<Rightarrow> reset_auction_state (s1\<lparr>PLAYERS := csv_rows rows 1 []\<rparr>))"

definition load_players_from_pdf :: "State \<Rightarrow> State" where
  "load_players_from_pdf s =
     (let s1 = s\<lparr>PLAYERS := []\<rparr> in
      case PLAYERS_PDF s1 of
        None \<Rightarrow> s1
      | Some rows \<Rightarrow> reset_auction_state (s1\<lparr>PLAYERS := pdf_rows rows 1 []\<rparr>))"

definition load_players_auto :: "State \<Rightarrow> State" where
  "load_players_auto s =
     (if PLAYERS s \<noteq> [] then s
      else if PLAYERS_PDF s \<noteq> None then load_players_from_pdf s
      else if PLAYERS_CSV s \<noteq> None then load_players_from_csv s
      else s)"

section \<open>Other utilities\<close>

definition init_teams :: "State \<Rightarrow> State" where
  "init_teams s =
     (if TEAMS s \<noteq> [] then s
      else s\<lparr>TEAMS :=
             fold (\<lambda>(n, purse) ts.
                     AList.update n
                       \<lparr>name = n, purse_total = purse, purse_remaining = purse,
                        taken_by = None, squad = []\<rparr> ts)
                  DEFAULT_TEAMS []\<rparr>)"

definition is_admin :: "nat \<Rightarrow> State \<Rightarrow> bool" where
  "is_admin c s = session_is_admin (SESSIONS s c)"

definition current_team :: "nat \<Rightarrow> State \<Rightarrow> Team option" where
  "current_team c s =
     (case session_team_name (SESSIONS s c) of
        None \<Rightarrow> None
      | Some tn \<Rightarrow> if tn \<noteq> [] then map_of (TEAMS s) tn else None)"


text \<open>
  \<open>random.shuffle\<close> is the only source of randomness; the permutation it applies is a
  parameter \<open>shuffle\<close> of the model.  \<open>group_by_set\<close> is the loop
  \<open>sets.setdefault(p.set_no, []).append(p)\<close> over \<open>PLAYERS.values()\<close>.
\<close>

fun group_by_set :: "Player list \<Rightarrow> (int \<times> Player list) list \<Rightarrow> (int \<times> Player list) list" where
  "group_by_set [] sets = sets"
| "group_by_set (p # ps) sets =
     group_by_set ps
       (AList.update (set_no p)
          ((case map_of sets (set_no p) of None \<Rightarrow> [] | Some l \<Rightarrow> l) @ [p]) sets)"

definition build_auction_order :: "(Player list \<Rightarrow> Player list) \<Rightarrow> State \<Rightarrow> State" where
  "build_auction_order shuffle s =
     (let s1 = s\<lparr>AUCTION_ORDER := []\<rparr> in
      if PLAYERS s1 = [] then s1
      else
        let sets = group_by_set (map snd (PLAYERS s1)) [];
            order = concat (map (\<lambda>k. case map_of sets k of
                                         None \<Rightarrow> []
                                       | Some players \<Rightarrow> map pid (shuffle players))
                                (sort (map fst sets)))
        in s1\<lparr>AUCTION_ORDER := order, AUCTION_STARTED := True, CURRENT_INDEX := 0,
              CURRENT_BID := None\<rparr>)"

definition get_current_player :: "State \<Rightarrow> Player option" where
  "get_current_player s =
     (if \<not> AUCTION_STARTED s \<or> CURRENT_INDEX s < 0
         \<or> CURRENT_INDEX s \<ge> int (length (AUCTION_ORDER s))
      then None
      else map_of (PLAYERS s) (AUCTION_ORDER s ! nat (CURRENT_INDEX s)))"

text \<open>The property \<open>full_name\<close>: first name, a blank, surname, stripped of blanks.\<close>

definition is_space :: "char \<Rightarrow> bool" where
  "is_space ch = (ch \<in> set [CHR 0x09, CHR 0x0A, CHR 0x0B, CHR 0x0C, CHR 0x0D, CHR 0x1C,
                            CHR 0x1D, CHR 0x1E, CHR 0x1F, CHR '' ''])"

definition strip :: "string \<Rightarrow> string" where
  "strip xs = rev (dropWhile is_space (rev (dropWhile is_space xs)))"

definition full_name :: "Player \<Rightarrow> string" where
  "full_name p = strip (first_name p @ '' '' @ surname p)"

section \<open>Routes\<close>

text \<open>\<open>GET /\<close>.\<close>

definition home :: "nat \<Rightarrow> State \<Rightarrow> reply \<times> State" where
  "home c s = (Ok, load_players_auto (init_teams s))"

text \<open>
  \<open>/select-team\<close>.  The argument is \<open>None\<close> for a GET and the form fields \<open>team\<close> and
  \<open>display_name\<close> for a POST.  Refusals: "Auction already started. You cannot change
  teams now.", "Invalid team.", "That team is already taken.".
\<close>

definition select_team ::
  "nat \<Rightarrow> (string option \<times> string option) option \<Rightarrow> State \<Rightarrow> reply \<times> State" where
  "select_team c post s0 =
     (let s = init_teams s0 in
      if AUCTION_STARTED s then (Failed AlreadyStarted, s)
      else case post of
        None \<Rightarrow> (Ok, s)
      | Some (team_field, display_field) \<Rightarrow>
          (let display_name =
                 (case display_field of
                    None \<Rightarrow> ''Player''
                  | Some d \<Rightarrow> if d = [] then ''Player'' else d)
           in (case team_field of
                 None \<Rightarrow> (Failed InvalidFranchise, s)
               | Some tn \<Rightarrow>
                   if tn = [] then (Failed InvalidFranchise, s)
                   else (case map_of (TEAMS s) tn of
                           None \<Rightarrow> (Failed InvalidFranchise, s)
                         | Some team \<Rightarrow>
                             if taken_by team \<noteq> None \<and> taken_by team \<noteq> Some []
                             then (Failed AlreadyClaimed, s)
                             else
                               (let ts1 =
                                      (case current_team c s of
                                         None \<Rightarrow> TEAMS s
                                       | Some old_team \<Rightarrow>
                                           AList.map_entry
                                             (the (session_team_name (SESSIONS s c)))
                                             (\<lambda>t. t\<lparr>taken_by := None\<rparr>) (TEAMS s));
                                    ts2 = AList.map_entry tn
                                            (\<lambda>t. t\<lparr>taken_by := Some display_name\<rparr>) ts1
                                in (Ok, s\<lparr>TEAMS := ts2,
                                          SESSIONS := (SESSIONS s)
                                            (c := (SESSIONS s c)
                                               \<lparr>session_team_name := Some tn\<rparr>)\<rparr>))))))"

text \<open>
  \<open>/unselect-team\<close>.  Refusals: "Auction already started. You cannot unselect team now.",
  "You are not currently assigned to any team.".
\<close>

definition unselect_team :: "nat \<Rightarrow> State \<Rightarrow> reply \<times> State" where
  "unselect_team c s0 =
     (let s = init_teams s0 in
      if AUCTION_STARTED s then (Failed AlreadyStarted, s)
      else case current_team c s of
        None \<Rightarrow> (Failed NoClaimant, s)
      | Some team \<Rightarrow>
          (Ok, s\<lparr>TEAMS := AList.map_entry (the (session_team_name (SESSIONS s c)))
                            (\<lambda>t. t\<lparr>taken_by := None\<rparr>) (TEAMS s),
                 SESSIONS := (SESSIONS s)
                   (c := (SESSIONS s c)\<lparr>session_team_name := None\<rparr>)\<rparr>))"

text \<open>\<open>/admin/login\<close>: \<open>None\<close> for a GET, the submitted password for a POST.\<close>

definition admin_login :: "nat \<Rightarrow> string option option \<Rightarrow> State \<Rightarrow> reply \<times> State" where
  "admin_login c post s =
     (case post of
        None \<Rightarrow> (Ok, s)
      | Some pw \<Rightarrow>
          if pw = Some ADMIN_PASSWORD
          then (Ok, s\<lparr>SESSIONS := (SESSIONS s)
                        (c := (SESSIONS s c)\<lparr>session_is_admin := True\<rparr>)\<rparr>)
          else (Failed WrongPassword, s))"

definition admin_logout :: "nat \<Rightarrow> State \<Rightarrow> reply \<times> State" where
  "admin_logout c s =
     (Ok, s\<lparr>SESSIONS := (SESSIONS s) (c := (SESSIONS s c)\<lparr>session_is_admin := False\<rparr>)\<rparr>)"

text \<open>
  \<open>/admin\<close>.  For a POST the form gives, for some team names, the value of the field
  \<open>purse_<name>\<close> after \<open>float\<close>: \<open>None\<close> where \<open>float\<close> raises \<open>ValueError\<close>.  The
  loop visits every team of \<open>TEAMS\<close> and writes to that team's object.
\<close>

definition update_purse :: "bool \<Rightarrow> (string \<times> real option) list \<Rightarrow> string \<times> Team \<Rightarrow> string \<times> Team" where
  "update_purse started form e =
     (case map_of form (fst e) of
        None \<Rightarrow> e
      | Some None \<Rightarrow> e
      | Some (Some val) \<Rightarrow>
          (fst e,
           if \<not> started then (snd e)\<lparr>purse_total := val, purse_remaining := val\<rparr>
           else (snd e)\<lparr>purse_total := val\<rparr>))"

definition admin_dashboard ::
  "nat \<Rightarrow> (string \<times> real option) list option \<Rightarrow> State \<Rightarrow> reply \<times> State" where
  "admin_dashboard c post s0 =
     (let s = load_players_auto (init_teams s0) in
      if \<not> is_admin c s then (Failed NotAuthorized, s)
      else case post of
        None \<Rightarrow> (Ok, s)
      | Some form \<Rightarrow>
          (Ok, s\<lparr>TEAMS := map (update_purse (AUCTION_STARTED s) form) (TEAMS s)\<rparr>))"

text \<open>
  \<open>/admin/upload\<close>.  The uploaded file is absent, a PDF or a CSV with its data rows, or
  of another type.  Refusals: "No file uploaded.", "Unsupported file type. Please upload
  a PDF or CSV.".
\<close>

datatype upload = No_upload | Pdf_upload "Row list" | Csv_upload "Row list" | Other_upload

definition upload_players :: "nat \<Rightarrow> upload \<Rightarrow> State \<Rightarrow> reply \<times> State" where
  "upload_players c file s =
     (if \<not> is_admin c s then (Failed NotAuthorized, s)
      else case file of
        No_upload \<Rightarrow> (Failed NoFile, s)
      | Pdf_upload rows \<Rightarrow> (Ok, load_players_from_pdf (s\<lparr>PLAYERS_PDF := Some rows\<rparr>))
      | Csv_upload rows \<Rightarrow> (Ok, load_players_from_csv (s\<lparr>PLAYERS_CSV := Some rows\<rparr>))
      | Other_upload \<Rightarrow> (Failed UnsupportedFile, s))"

text \<open>\<open>/admin/start\<close>.  Refusal: "No players loaded.".\<close>

definition start_auction :: "nat \<Rightarrow> (Player list \<Rightarrow> Player list) \<Rightarrow> State \<Rightarrow> reply \<times> State" where
  "start_auction c shuffle s =
     (if \<not> is_admin c s then (Failed NotAuthorized, s)
      else if PLAYERS s = [] then (Failed EmptyCatalog, s)
      else (Ok, build_auction_order shuffle s))"

text \<open>\<open>/admin/end\<close>.\<close>

definition end_auction :: "nat \<Rightarrow> State \<Rightarrow> reply \<times> State" where
  "end_auction c s =
     (if \<not> is_admin c s then (Failed NotAuthorized, s)
      else (Ok, s\<lparr>AUCTION_STARTED := False, CURRENT_INDEX := - 1, CURRENT_BID := None\<rparr>))"

text \<open>\<open>GET /auction\<close>.\<close>

definition auction_room :: "nat \<Rightarrow> State \<Rightarrow> reply \<times> State" where
  "auction_room c s = (Ok, load_players_auto (init_teams s))"

text \<open>
  \<open>/auction/bid\<close>.  The argument is the form field \<open>amount\<close> after \<open>float\<close>, \<open>None\<close>
  where \<open>float\<close> raises \<open>ValueError\<close>.  Refusals, in this order: "Auction not started.",
  "Select a team before bidding.", "No active player.", "Invalid amount.", "Bid must be
  positive.", "Bid must be at least ... Cr." and "You do not have enough purse.".
\<close>

definition place_bid :: "nat \<Rightarrow> real option \<Rightarrow> State \<Rightarrow> reply \<times> State" where
  "place_bid c amount_field s =
     (if \<not> AUCTION_STARTED s then (Failed NotStarted, s)
      else case current_team c s of
        None \<Rightarrow> (Failed NoClaimant, s)
      | Some team \<Rightarrow>
          (case get_current_player s of
             None \<Rightarrow> (Failed NoActivePlayer, s)
           | Some player \<Rightarrow>
               (case amount_field of
                  None \<Rightarrow> (Failed InvalidAmount, s)
                | Some amnt \<Rightarrow>
                    if amnt \<le> 0 then (Failed NotPositive, s)
                    else
                      let min_price = base_price player / 100;
                          min_allowed =
                            max min_price
                              (case CURRENT_BID s of
                                 Some b \<Rightarrow> amount b + 1 / 10
                               | None \<Rightarrow> min_price)
                      in if amnt < min_allowed - 1 / 1000000
                         then (Failed (BidTooLow min_allowed), s)
                         else if amnt > purse_remaining team + 1 / 1000000
                         then (Failed InsufficientPurse, s)
                         else (Ok, s\<lparr>CURRENT_BID :=
                                       Some \<lparr>player_id = pid player, team_name = name team,
                                             amount = amnt\<rparr>\<rparr>))))"

text \<open>
  \<open>/auction/sell\<close>.  Refusals: "Auction is not live.", "No active player.", "No bids to
  sell.".  \<open>TEAMS[CURRENT_BID.team_name]\<close> raises \<open>KeyError\<close> for an unknown name.
\<close>

definition sell_player :: "nat \<Rightarrow> State \<Rightarrow> reply \<times> State" where
  "sell_player c s =
     (if \<not> is_admin c s then (Failed NotAuthorized, s)
      else if \<not> AUCTION_STARTED s then (Failed NotStarted, s)
      else case get_current_player s of
        None \<Rightarrow> (Failed NoActivePlayer, s)
      | Some player \<Rightarrow>
          (case CURRENT_BID s of
             None \<Rightarrow> (Failed NoBid, s)
           | Some b \<Rightarrow>
               (case map_of (TEAMS s) (team_name b) of
                  None \<Rightarrow> (Failed KeyError, s)
                | Some team \<Rightarrow>
                    let price_cr = amount b in
                    (Ok, s\<lparr>TEAMS :=
                             AList.map_entry (team_name b)
                               (\<lambda>t. t\<lparr>purse_remaining := purse_remaining t - price_cr,
                                      squad := squad t @ [pid player]\<rparr>) (TEAMS s),
                           SOLD_PLAYERS :=
                             AList.update (pid player)
                               \<lparr>sold_player_name = full_name player,
                                sold_team_name = Some (name team),
                                sold_price_cr = price_cr\<rparr> (SOLD_PLAYERS s),
                           CURRENT_BID := None,
                           CURRENT_INDEX := CURRENT_INDEX s + 1\<rparr>))))"

text \<open>\<open>/auction/unsold\<close>.\<close>

definition unsold_player :: "nat \<Rightarrow> State \<Rightarrow> reply \<times> State" where
  "unsold_player c s =
     (if \<not> is_admin c s then (Failed NotAuthorized, s)
      else if \<not> AUCTION_STARTED s then (Failed NotStarted, s)
      else case get_current_player s of
        None \<Rightarrow> (Failed NoActivePlayer, s)
      | Some player \<Rightarrow>
          (Ok, s\<lparr>SOLD_PLAYERS :=
                   AList.update (pid player)
                     \<lparr>sold_player_name = full_name player, sold_team_name = None,
                      sold_price_cr = 0\<rparr> (SOLD_PLAYERS s),
                 CURRENT_BID := None,
                 CURRENT_INDEX := CURRENT_INDEX s + 1\<rparr>))"

text \<open>\<open>/auction/next\<close>.\<close>

definition next_player :: "nat \<Rightarrow> State \<Rightarrow> reply \<times> State" where
  "next_player c s =
     (if \<not> is_admin c s then (Failed NotAuthorized, s)
      else if \<not> AUCTION_STARTED s then (Failed NotStarted, s)
      else (Ok, s\<lparr>CURRENT_BID := None, CURRENT_INDEX := CURRENT_INDEX s + 1\<rparr>))"

section \<open>Requests and runs\<close>

text \<open>
  One constructor for each route, with the number of the client that sends the request.
\<close>

datatype request =
    Home nat
  | Select_team nat "(string option \<times> string option) option"
  | Unselect_team nat
  | Admin_login nat "string option option"
  | Admin_logout nat
  | Admin_dashboard nat "(string \<times> real option) list option"
  | Upload_players nat upload
  | Start_auction nat "Player list \<Rightarrow> Player list"
  | End_auction nat
  | Auction_room nat
  | Place_bid nat "real option"
  | Sell_player nat
  | Unsold_player nat
  | Next_player nat

fun handle :: "request \<Rightarrow> State \<Rightarrow> reply \<times> State" where
  "handle (Home c) s = home c s"
| "handle (Select_team c post) s = select_team c post s"
| "handle (Unselect_team c) s = unselect_team c s"
| "handle (Admin_login c post) s = admin_login c post s"
| "handle (Admin_logout c) s = admin_logout c s"
| "handle (Admin_dashboard c post) s = admin_dashboard c post s"
| "handle (Upload_players c file) s = upload_players c file s"
| "handle (Start_auction c shuffle) s = start_auction c shuffle s"
| "handle (End_auction c) s = end_auction c s"
| "handle (Auction_room c) s = auction_room c s"
| "handle (Place_bid c a) s = place_bid c a s"
| "handle (Sell_player c) s = sell_player c s"
| "handle (Unsold_player c) s = unsold_player c s"
| "handle (Next_player c) s = next_player c s"

definition step :: "request \<Rightarrow> State \<Rightarrow> State" where
  "step r s = snd (handle r s)"

definition run :: "request list \<Rightarrow> State \<Rightarrow> State" where
  "run rs s = fold step rs s"

text \<open>
  The globals as the module defines them, with the two files as they are on disk, and
  the state after the main block (\<open>init_teams\<close>, \<open>load_players_auto\<close>).
\<close>

definition module_state :: "Row list option \<Rightarrow> Row list option \<Rightarrow> State" where
  "module_state pdf csv =
     \<lparr>PLAYERS = [], TEAMS = [], AUCTION_STARTED = False, AUCTION_ORDER = [],
      CURRENT_INDEX = - 1, CURRENT_BID = None, SOLD_PLAYERS = [],
      SESSIONS = (\<lambda>c. \<lparr>session_team_name = None, session_is_admin = False\<rparr>),
      PLAYERS_PDF = pdf, PLAYERS_CSV = csv\<rparr>"

definition initial :: "Row list option \<Rightarrow> Row list option \<Rightarrow> State" where
  "initial pdf csv = load_players_auto (init_teams (module_state pdf csv))"

text \<open>
  A shuffle permutes its argument.  The reachable states are those a run of requests
  leads to from process start, every shuffle being a permutation.
\<close>

definition is_shuffle :: "(Player list \<Rightarrow> Player list) \<Rightarrow> bool" where
  "is_shuffle f = (\<forall>xs. mset (f xs) = mset xs)"

fun well_formed :: "request \<Rightarrow> bool" where
  "well_formed (Start_auction c shuffle) = is_shuffle shuffle"
| "well_formed r = True"

inductive reachable :: "State \<Rightarrow> bool" where
  start: "reachable (initial pdf csv)"
| request: "reachable s \<Longrightarrow> well_formed r \<Longrightarrow> reachable (step r s)"

section \<open>A session of the auction\<close>

text \<open>
  A run used to evaluate the handlers: the administrator (client 0) logs in and uploads a
  CSV file with two players, clients 1 and 2 take the teams CSK and MI, and the
  administrator starts the auction (with the identity as shuffle).  Player 2 is in set 1
  and comes first.  Then CSK bids 2.0 and MI bids 2.1, and the player is sold to MI.
\<close>

definition demo_rows :: "Row list" where
  "demo_rows =
     [\<lparr>row_set_no = Some 2, row_set_code = ''BA1'', row_first_name = ''Ravi'',
       row_surname = ''Rao'', row_country = ''India'', row_base_price = 100,
       row_role = ''BATTER''\<rparr>,
      \<lparr>row_set_no = Some 1, row_set_code = ''M1'', row_first_name = ''Virat'',
       row_surname = ''Kohli'', row_country = ''India'', row_base_price = 200,
       row_role = ''BATTER''\<rparr>]"

definition demo_before :: "request list" where
  "demo_before =
     [Admin_login 0 (Some (Some ''ipladmin'')),
      Upload_players 0 (Csv_upload demo_rows),
      Select_team 1 (Some (Some ''CSK'', Some ''X'')),
      Select_team 2 (Some (Some ''MI'', Some ''Y''))]"

definition demo_ready :: State where
  "demo_ready = run demo_before (initial None None)"

definition demo_live :: State where
  "demo_live = step (Start_auction 0 (\<lambda>xs. xs)) demo_ready"

definition demo_bids :: State where
  "demo_bids = run [Place_bid 1 (Some 2), Place_bid 2 (Some (21 / 10))] demo_live"

definition demo_sold :: State where
  "demo_sold = step (Sell_player 0) demo_bids"


section \<open>The session, evaluated\<close>

lemmas handler_defs =
  step_def run_def home_def select_team_def unselect_team_def admin_login_def
  admin_logout_def admin_dashboard_def upload_players_def start_auction_def
  end_auction_def auction_room_def place_bid_def sell_player_def unsold_player_def
  next_player_def init_teams_def load_players_auto_def load_players_from_csv_def
  load_players_from_pdf_def reset_auction_state_def is_admin_def current_team_def
  get_current_player_def build_auction_order_def update_purse_def make_player_def
  full_name_def strip_def is_space_def ADMIN_PASSWORD_def DEFAULT_TEAMS_def
  module_state_def initial_def Let_def

lemma demo_ready_fields:
  "PLAYERS demo_ready =
     [(1, \<lparr>pid = 1, set_no = 2, set_code = ''BA1'', first_name = ''Ravi'', surname = ''Rao'',
            country = ''India'', base_price = 100, role = ''BATTER''\<rparr>),
      (2, \<lparr>pid = 2, set_no = 1, set_code = ''M1'', first_name = ''Virat'', surname = ''Kohli'',
            country = ''India'', base_price = 200, role = ''BATTER''\<rparr>)]"
  "\<not> AUCTION_STARTED demo_ready"
  "AUCTION_ORDER demo_ready = []"
  "CURRENT_INDEX demo_ready = - 1"
  "CURRENT_BID demo_ready = None"
  "SOLD_PLAYERS demo_ready = []"
  "SESSIONS demo_ready 0 = \<lparr>session_team_name = None, session_is_admin = True\<rparr>"
  "SESSIONS demo_ready (Suc 0) = \<lparr>session_team_name = Some ''CSK'', session_is_admin = False\<rparr>"
  "SESSIONS demo_ready 2 = \<lparr>session_team_name = Some ''MI'', session_is_admin = False\<rparr>"
  "PLAYERS_CSV demo_ready = Some demo_rows"
  "PLAYERS_PDF demo_ready = None"
  by (simp_all add: demo_ready_def demo_before_def handler_defs demo_rows_def)

lemma demo_ready_teams:
  "TEAMS demo_ready =
     [(''CSK'', \<lparr>name = ''CSK'', purse_total = 100, purse_remaining = 100,
                 taken_by = Some ''X'', squad = []\<rparr>),
      (''MI'', \<lparr>name = ''MI'', purse_total = 100, purse_remaining = 100,
                taken_by = Some ''Y'', squad = []\<rparr>),
      (''RCB'', \<lparr>name = ''RCB'', purse_total = 100, purse_remaining = 100,
                 taken_by = None, squad = []\<rparr>),
      (''KKR'', \<lparr>name = ''KKR'', purse_total = 100, purse_remaining = 100,
                 taken_by = None, squad = []\<rparr>),
      (''SRH'', \<lparr>name = ''SRH'', purse_total = 100, purse_remaining = 100,
                 taken_by = None, squad = []\<rparr>),
      (''RR'', \<lparr>name = ''RR'', purse_total = 100, purse_remaining = 100,
                taken_by = None, squad = []\<rparr>),
      (''DC'', \<lparr>name = ''DC'', purse_total = 100, purse_remaining = 100,
                taken_by = None, squad = []\<rparr>),
      (''PBKS'', \<lparr>name = ''PBKS'', purse_total = 100, purse_remaining = 100,
                  taken_by = None, squad = []\<rparr>),
      (''GT'', \<lparr>name = ''GT'', purse_total = 100, purse_remaining = 100,
                taken_by = None, squad = []\<rparr>),
      (''LSG'', \<lparr>name = ''LSG'', purse_total = 100, purse_remaining = 100,
                 taken_by = None, squad = []\<rparr>)]"
  by (simp add: demo_ready_def demo_before_def handler_defs demo_rows_def)

lemma demo_live_eq:
  "demo_live =
     demo_ready\<lparr>AUCTION_ORDER := [2, 1], AUCTION_STARTED := True, CURRENT_INDEX := 0,
                CURRENT_BID := None\<rparr>"
  by (simp add: demo_live_def step_def start_auction_def is_admin_def
      build_auction_order_def demo_ready_fields Let_def)

lemma demo_live_fields:
  "PLAYERS demo_live = PLAYERS demo_ready"
  "TEAMS demo_live = TEAMS demo_ready"
  "AUCTION_STARTED demo_live"
  "AUCTION_ORDER demo_live = [2, 1]"
  "CURRENT_INDEX demo_live = 0"
  "CURRENT_BID demo_live = None"
  "SOLD_PLAYERS demo_live = []"
  "SESSIONS demo_live = SESSIONS demo_ready"
  "PLAYERS_CSV demo_live = Some demo_rows"
  "PLAYERS_PDF demo_live = None"
  by (simp_all add: demo_live_eq demo_ready_fields)

lemma demo_live_player:
  "get_current_player demo_live =
     Some \<lparr>pid = 2, set_no = 1, set_code = ''M1'', first_name = ''Virat'',
           surname = ''Kohli'', country = ''India'', base_price = 200, role = ''BATTER''\<rparr>"
  by (simp add: get_current_player_def demo_live_fields demo_ready_fields)

lemma demo_bids_eq:
  "demo_bids =
     demo_live\<lparr>CURRENT_BID := Some \<lparr>player_id = 2, team_name = ''MI'', amount = 21 / 10\<rparr>\<rparr>"
  by (simp add: demo_bids_def run_def step_def place_bid_def current_team_def
      get_current_player_def demo_live_fields demo_ready_fields demo_ready_teams)

lemma demo_bids_sell:
  "sell_player 0 demo_bids =
     (Ok, demo_live
        \<lparr>TEAMS :=
           AList.map_entry ''MI''
             (\<lambda>t. t\<lparr>purse_remaining := purse_remaining t - 21 / 10, squad := squad t @ [2]\<rparr>)
             (TEAMS demo_ready),
         SOLD_PLAYERS :=
           [(2, \<lparr>sold_player_name = ''Virat Kohli'', sold_team_name = Some ''MI'',
                 sold_price_cr = 21 / 10\<rparr>)],
         CURRENT_BID := None, CURRENT_INDEX := 1\<rparr>)"
  by (simp add: demo_bids_eq sell_player_def is_admin_def get_current_player_def
      demo_live_fields demo_ready_fields demo_ready_teams full_name_def strip_def
      is_space_def)

lemma demo_sold_fields:
  "PLAYERS demo_sold = PLAYERS demo_ready"
  "AUCTION_STARTED demo_sold"
  "AUCTION_ORDER demo_sold = [2, 1]"
  "CURRENT_INDEX demo_sold = 1"
  "CURRENT_BID demo_sold = None"
  "SOLD_PLAYERS demo_sold =
     [(2, \<lparr>sold_player_name = ''Virat Kohli'', sold_team_name = Some ''MI'',
           sold_price_cr = 21 / 10\<rparr>)]"
  "SESSIONS demo_sold = SESSIONS demo_ready"
  "PLAYERS_CSV demo_sold = Some demo_rows"
  "PLAYERS_PDF demo_sold = None"
  by (simp_all add: demo_sold_def step_def demo_bids_sell demo_live_fields)

lemma demo_sold_teams:
  "TEAMS demo_sold =
     [(''CSK'', \<lparr>name = ''CSK'', purse_total = 100, purse_remaining = 100,
                 taken_by = Some ''X'', squad = []\<rparr>),
      (''MI'', \<lparr>name = ''MI'', purse_total = 100, purse_remaining = 979 / 10,
                taken_by = Some ''Y'', squad = [2]\<rparr>),
      (''RCB'', \<lparr>name = ''RCB'', purse_total = 100, purse_remaining = 100,
                 taken_by = None, squad = []\<rparr>),
      (''KKR'', \<lparr>name = ''KKR'', purse_total = 100, purse_remaining = 100,
                 taken_by = None, squad = []\<rparr>),
      (''SRH'', \<lparr>name = ''SRH'', purse_total = 100, purse_remaining = 100,
                 taken_by = None, squad = []\<rparr>),
      (''RR'', \<lparr>name = ''RR'', purse_total = 100, purse_remaining = 100,
                taken_by = None, squad = []\<rparr>),
      (''DC'', \<lparr>name = ''DC'', purse_total = 100, purse_remaining = 100,
                taken_by = None, squad = []\<rparr>),
      (''PBKS'', \<lparr>name = ''PBKS'', purse_total = 100, purse_remaining = 100,
                  taken_by = None, squad = []\<rparr>),
      (''GT'', \<lparr>name = ''GT'', purse_total = 100, purse_remaining = 100,
                taken_by = None, squad = []\<rparr>),
      (''LSG'', \<lparr>name = ''LSG'', purse_total = 100, purse_remaining = 100,
                 taken_by = None, squad = []\<rparr>)]"
  by (simp add: demo_sold_def step_def demo_bids_sell demo_ready_teams)

section \<open>Reloading the catalogue\<close>



section \<open>Skipping a player\<close>

lemma next_player_admin:
  "is_admin c s \<Longrightarrow> AUCTION_STARTED s \<Longrightarrow>
   next_player c s = (Ok, s\<lparr>CURRENT_BID := None, CURRENT_INDEX := CURRENT_INDEX s + 1\<rparr>)"
  by (simp add: next_player_def)

lemma next_player_repeated:
  "is_admin c s \<Longrightarrow> AUCTION_STARTED s \<Longrightarrow>
   run (replicate n (Next_player c)) s =
     (if n = 0 then s
      else s\<lparr>CURRENT_BID := None, CURRENT_INDEX := CURRENT_INDEX s + int n\<rparr>)"
proof (induction n arbitrary: s)
  case 0
  then show ?case by (simp add: run_def)
next
  case (Suc n)
  let ?s1 = "s\<lparr>CURRENT_BID := None, CURRENT_INDEX := CURRENT_INDEX s + 1\<rparr>"
  have a: "is_admin c ?s1" "AUCTION_STARTED ?s1"
    using Suc.prems by (simp_all add: is_admin_def)
  have "run (replicate (Suc n) (Next_player c)) s = run (replicate n (Next_player c)) ?s1"
    using Suc.prems by (simp add: run_def step_def next_player_def)
  also have "\<dots> =
      (if n = 0 then ?s1
       else ?s1\<lparr>CURRENT_BID := None, CURRENT_INDEX := CURRENT_INDEX ?s1 + int n\<rparr>)"
    using Suc.IH [OF a] .
  finally show ?case by (simp add: add.commute add.left_commute)
qed

text \<open>
  C8.  The skip action asks for the administrator and a started auction and for nothing
  else: whatever the index is, also at or past the end of the order, it answers \<open>Ok\<close>,
  clears the bid and adds one to the index, and never answers \<open>NoActivePlayer\<close>.  Repeated
  \<open>n\<close> times it adds \<open>n\<close>, so the index grows past the length of the order.
\<close>

theorem skip_needs_no_current_player:
  assumes "is_admin c s" and "AUCTION_STARTED s"
  shows "next_player c s =
           (Ok, s\<lparr>CURRENT_BID := None, CURRENT_INDEX := CURRENT_INDEX s + 1\<rparr>) \<and>
         fst (next_player c s) \<noteq> Failed NoActivePlayer \<and>
         CURRENT_INDEX (run (replicate n (Next_player c)) s) = CURRENT_INDEX s + int n \<and>
         AUCTION_STARTED (run (replicate n (Next_player c)) s)"
  using assms by (simp add: next_player_admin next_player_repeated)

theorem skip_needs_no_current_player_witness:
  "is_admin 0 demo_sold \<and> AUCTION_STARTED demo_sold \<and>
   length (AUCTION_ORDER demo_sold) = 2 \<and>
   get_current_player (run (replicate 2 (Next_player 0)) demo_sold) = None \<and>
   fst (next_player 0 (run (replicate 2 (Next_player 0)) demo_sold)) = Ok \<and>
   CURRENT_INDEX (run (replicate 5 (Next_player 0)) demo_sold) = 6"
proof -
  have a: "is_admin 0 demo_sold" "AUCTION_STARTED demo_sold"
    by (simp_all add: is_admin_def demo_sold_fields demo_ready_fields)
  let ?s2 = "run (replicate 2 (Next_player 0)) demo_sold"
  have s2: "CURRENT_INDEX ?s2 = 3" "AUCTION_STARTED ?s2"
    using skip_needs_no_current_player [OF a, of 2] by (simp_all add: demo_sold_fields)
  have b: "is_admin 0 ?s2"
    using a by (simp add: next_player_repeated is_admin_def)
  have "AUCTION_ORDER ?s2 = [2, 1]"
    using a by (simp add: next_player_repeated demo_sold_fields)
  then have c: "get_current_player ?s2 = None"
    using s2 by (simp add: get_current_player_def)
  have d: "fst (next_player 0 ?s2) = Ok"
    using skip_needs_no_current_player [OF b s2(2), of 0] by simp
  have e: "CURRENT_INDEX (run (replicate 5 (Next_player 0)) demo_sold) = 6"
    using skip_needs_no_current_player [OF a, of 5] by (simp add: demo_sold_fields)
  show ?thesis using a c d e by (simp add: demo_sold_fields)
qed

section \<open>Confirming a sale twice\<close>

text \<open>
  C3.  When \<open>sell_player\<close> has succeeded, the same request sent again at once is refused:
  with \<open>NoActivePlayer\<close> when the index has moved past the end of the order (or the
  player is not in the catalogue), and otherwise with \<open>NoBid\<close>, since the sale cleared the
  bid.  The refused request leaves the whole state as it was, so no purse is debited again
  and no squad or outcome entry changes.
\<close>

theorem sell_player_twice_fails:
  assumes "sell_player c s = (Ok, s1)"
  shows "(fst (sell_player c s1) = Failed NoActivePlayer \<or>
          fst (sell_player c s1) = Failed NoBid) \<and>
         (int (length (AUCTION_ORDER s1)) \<le> CURRENT_INDEX s1 \<longrightarrow>
            fst (sell_player c s1) = Failed NoActivePlayer) \<and>
         (get_current_player s1 \<noteq> None \<longrightarrow> fst (sell_player c s1) = Failed NoBid) \<and>
         snd (sell_player c s1) = s1 \<and>
         TEAMS (snd (sell_player c s1)) = TEAMS s1 \<and>
         SOLD_PLAYERS (snd (sell_player c s1)) = SOLD_PLAYERS s1"
proof -
  from assms have adm: "is_admin c s" and st: "AUCTION_STARTED s"
    by (auto simp: sell_player_def split: if_splits)
  from assms adm st obtain player b team where
    "get_current_player s = Some player" "CURRENT_BID s = Some b"
    "map_of (TEAMS s) (team_name b) = Some team"
    by (auto simp: sell_player_def split: option.splits)
  with assms adm st have s1:
    "CURRENT_BID s1 = None" "AUCTION_STARTED s1" "SESSIONS s1 = SESSIONS s"
    by (auto simp: sell_player_def Let_def)
  from s1 adm have adm1: "is_admin c s1"
    by (simp add: is_admin_def)
  show ?thesis
    using s1 adm1
    by (auto simp: sell_player_def get_current_player_def split: option.splits)
qed

theorem sell_player_twice_fails_witness:
  "fst (sell_player 0 demo_bids) = Ok \<and>
   sell_player 0 (snd (sell_player 0 demo_bids)) =
     (Failed NoBid, snd (sell_player 0 demo_bids)) \<and>
   map_of (TEAMS (snd (sell_player 0 (snd (sell_player 0 demo_bids))))) ''MI'' =
     Some \<lparr>name = ''MI'', purse_total = 100, purse_remaining = 979 / 10,
           taken_by = Some ''Y'', squad = [2]\<rparr>"
proof -
  have a: "sell_player 0 demo_bids = (Ok, demo_sold)"
    by (simp add: demo_sold_def step_def demo_bids_sell)
  have "get_current_player demo_sold \<noteq> None"
    by (simp add: get_current_player_def demo_sold_fields demo_ready_fields)
  with sell_player_twice_fails [OF a]
  have "fst (sell_player 0 demo_sold) = Failed NoBid" "snd (sell_player 0 demo_sold) = demo_sold"
    by simp_all
  then have "sell_player 0 demo_sold = (Failed NoBid, demo_sold)"
    by (simp add: prod_eq_iff)
  then show ?thesis
    using a by (simp add: demo_sold_teams)
qed

end
